theory Spec2Isabelle
  imports Main "HOL-Library.Word"
begin

unbundle bit_operations_syntax

section \<open>Python strings\<close>

text \<open>
  The scripts work on Python \<open>str\<close> values read from text files. A text is modelled as
  a \<open>string\<close> (a list of characters); the characters of the model are the code points
  below 256, which covers every literal of the scripts and the project files they edit.
\<close>

text \<open>\<open>s.startswith(p)\<close>\<close>

fun startswith :: "string \<Rightarrow> string \<Rightarrow> bool" where
  "startswith s [] = True"
| "startswith [] (p # ps) = False"
| "startswith (c # cs) (p # ps) = (c = p \<and> startswith cs ps)"

text \<open>\<open>sub in s\<close>: the substring test.\<close>

fun py_in :: "string \<Rightarrow> string \<Rightarrow> bool" where
  "py_in sub [] = (sub = [])"
| "py_in sub (c # cs) = (startswith (c # cs) sub \<or> py_in sub cs)"

text \<open>\<open>s.replace(old, new)\<close>, every non-overlapping occurrence from the left.\<close>

function py_replace :: "string \<Rightarrow> string \<Rightarrow> string \<Rightarrow> string" where
  "py_replace old new [] = (if old = [] then new else [])"
| "py_replace old new (c # cs) =
     (if old = [] then new @ c # py_replace old new cs
      else if startswith (c # cs) old
           then new @ py_replace old new (drop (length old) (c # cs))
           else c # py_replace old new cs)"
  by pat_completeness auto
termination
  by (relation "measure (\<lambda>(old, new, s). length s)") auto

text \<open>\<open>s.upper()\<close> on the ASCII letters (the only letters an identifier holds).\<close>

definition py_upper_char :: "char \<Rightarrow> char" where
  "py_upper_char c =
     (let n = (of_char c :: nat) in if 97 \<le> n \<and> n \<le> 122 then char_of (n - 32) else c)"

definition py_upper :: "string \<Rightarrow> string" where
  "py_upper s = map py_upper_char s"

text \<open>\<open>sep.join(xs)\<close>\<close>

fun py_join :: "string \<Rightarrow> string list \<Rightarrow> string" where
  "py_join sep [] = []"
| "py_join sep [x] = x"
| "py_join sep (x # y # ys) = x @ sep @ py_join sep (y # ys)"


text \<open>
  \<open>c.isspace()\<close>, also the white-space class of \<open>re\<close> on \<open>str\<close> patterns, for the code
  points below 256.
\<close>

definition py_isspace :: "char \<Rightarrow> bool" where
  "py_isspace c =
     (let n = (of_char c :: nat) in (9 \<le> n \<and> n \<le> 13) \<or> (28 \<le> n \<and> n \<le> 32) \<or> n = 133 \<or> n = 160)"

definition tabs :: "nat \<Rightarrow> string" where
  "tabs n = replicate n (CHR 0x09)"

text \<open>\<open>s.lstrip()\<close>, \<open>s.rstrip()\<close> and \<open>s.strip()\<close>: white space removed at the ends.\<close>

definition py_lstrip :: "string \<Rightarrow> string" where
  "py_lstrip s = dropWhile py_isspace s"

definition py_rstrip :: "string \<Rightarrow> string" where
  "py_rstrip s = rev (dropWhile py_isspace (rev s))"

definition py_strip :: "string \<Rightarrow> string" where
  "py_strip s = py_lstrip (py_rstrip s)"

text \<open>\<open>s.split(sep)\<close> for a separator of one character.\<close>

fun py_split :: "char \<Rightarrow> string \<Rightarrow> string list" where
  "py_split sep [] = [[]]"
| "py_split sep (c # cs) =
     (if c = sep then [] # py_split sep cs
      else (case py_split sep cs of [] \<Rightarrow> [[c]] | x # xs \<Rightarrow> (c # x) # xs))"

section \<open>Regular expressions: \<open>re.sub\<close>\<close>

text \<open>
  The patterns of the scripts are sequences of literals and starred character classes
  (any character, lazily; white space, greedily; any character but a closing brace,
  greedily; backslashes, greedily). \<open>rmatch\<close> is the backtracking matcher of
  \<open>re\<close> anchored at the start of the text: a greedy star tries the longest run first, a
  lazy star the shortest, and the first way that lets the rest of the pattern match wins.
  It returns the text consumed by each element of the pattern, and the text left after
  the match; a group of the pattern is the concatenation of the pieces of its elements.
\<close>

datatype atom = Lit string | Star "char \<Rightarrow> bool" | LazyStar "char \<Rightarrow> bool"

text \<open>The text after the prefix \<open>l\<close>, when the text starts with \<open>l\<close>.\<close>

fun strip_prefix :: "string \<Rightarrow> string \<Rightarrow> string option" where
  "strip_prefix [] s = Some s"
| "strip_prefix (p # ps) [] = None"
| "strip_prefix (p # ps) (c # cs) = (if p = c then strip_prefix ps cs else None)"

text \<open>A character added to the first piece of a match.\<close>

fun extend_first :: "char \<Rightarrow> (string list \<times> string) option \<Rightarrow> (string list \<times> string) option" where
  "extend_first c (Some (p # ps, r)) = Some ((c # p) # ps, r)"
| "extend_first c m = None"

text \<open>A piece added in front of the pieces of a match.\<close>

fun add_piece :: "string \<Rightarrow> (string list \<times> string) option \<Rightarrow> (string list \<times> string) option" where
  "add_piece p (Some (ps, r)) = Some (p # ps, r)"
| "add_piece p None = None"

fun rmatch :: "atom list \<Rightarrow> string \<Rightarrow> (string list \<times> string) option" where
  "rmatch [] s = Some ([], s)"
| "rmatch (Lit l # as) s =
     (case strip_prefix l s of
        None \<Rightarrow> None
      | Some s' \<Rightarrow> add_piece l (rmatch as s'))"
| "rmatch (LazyStar cls # as) s =
     (case rmatch as s of
        Some m \<Rightarrow> add_piece [] (Some m)
      | None \<Rightarrow>
          (case s of
             [] \<Rightarrow> None
           | c # cs \<Rightarrow> if cls c then extend_first c (rmatch (LazyStar cls # as) cs) else None))"
| "rmatch (Star cls # as) s =
     (case s of
        [] \<Rightarrow> add_piece [] (rmatch as [])
      | c # cs \<Rightarrow>
          if cls c
          then (case extend_first c (rmatch (Star cls # as) cs) of
                  Some m \<Rightarrow> Some m
                | None \<Rightarrow> add_piece [] (rmatch as (c # cs)))
          else add_piece [] (rmatch as (c # cs)))"

lemma strip_prefix_Some: "strip_prefix l s = Some r \<longleftrightarrow> s = l @ r"
  by (induction l s rule: strip_prefix.induct) auto

lemma extend_first_Some:
  "extend_first c m = Some (ps, r) \<longleftrightarrow> (\<exists>p qs. m = Some (p # qs, r) \<and> ps = (c # p) # qs)"
  by (cases "(c, m)" rule: extend_first.cases) auto

lemma extend_first_None:
  "extend_first c m = None \<longleftrightarrow> (m = None \<or> (\<exists>r. m = Some ([], r)))"
  by (cases "(c, m)" rule: extend_first.cases) auto

lemma add_piece_Some:
  "add_piece p m = Some (ps, r) \<longleftrightarrow> (\<exists>qs. m = Some (qs, r) \<and> ps = p # qs)"
  by (cases "(p, m)" rule: add_piece.cases) auto

lemma rmatch_concat: "rmatch pat s = Some (ps, r) \<Longrightarrow> s = concat ps @ r"
proof (induction pat s arbitrary: ps r rule: rmatch.induct)
  case (1 s)
  then show ?case by simp
next
  case (2 l as s)
  from "2.prems" obtain s' where s': "strip_prefix l s = Some s'"
    by (auto split: option.splits)
  with "2.prems" obtain qs where qs: "rmatch as s' = Some (qs, r)" and ps: "ps = l # qs"
    by (auto simp: add_piece_Some)
  from "2.IH" [OF s' qs] s' ps show ?case by (simp add: strip_prefix_Some)
next
  case (3 cls as s)
  show ?case
  proof (cases "rmatch as s")
    case (Some m)
    with "3.prems" obtain qs where "m = (qs, r)" and "ps = [] # qs"
      by (auto simp: add_piece_Some)
    with Some "3.IH"(1) [of qs r] show ?thesis by simp
  next
    case None
    with "3.prems" obtain c cs where s: "s = c # cs" and c: "cls c"
      by (cases s) (auto split: if_splits)
    with None "3.prems" obtain p qs where
      m: "rmatch (LazyStar cls # as) cs = Some (p # qs, r)" and ps: "ps = (c # p) # qs"
      by (auto simp: extend_first_Some)
    from "3.IH"(2) [OF None s c m] s ps show ?thesis by simp
  qed
next
  case (4 cls as s)
  show ?case
  proof (cases s)
    case Nil
    with "4.prems" obtain qs where "rmatch as [] = Some (qs, r)" and "ps = [] # qs"
      by (auto simp: add_piece_Some)
    with "4.IH"(1) [OF Nil] Nil show ?thesis by simp
  next
    case (Cons c cs)
    show ?thesis
    proof (cases "cls c")
      case True
      show ?thesis
      proof (cases "extend_first c (rmatch (Star cls # as) cs)")
        case None
        with Cons True "4.prems" obtain qs where
          m: "rmatch as (c # cs) = Some (qs, r)" and ps: "ps = [] # qs"
          by (auto simp: add_piece_Some)
        from "4.IH"(3) [OF Cons True None m] Cons ps show ?thesis by simp
      next
        case (Some m)
        with Cons True "4.prems" have "extend_first c (rmatch (Star cls # as) cs) = Some (ps, r)"
          by simp
        then obtain p qs where
          m: "rmatch (Star cls # as) cs = Some (p # qs, r)" and ps: "ps = (c # p) # qs"
          by (auto simp: extend_first_Some)
        from "4.IH"(2) [OF Cons True m] Cons ps show ?thesis by simp
      qed
    next
      case False
      with Cons "4.prems" obtain qs where
        m: "rmatch as (c # cs) = Some (qs, r)" and ps: "ps = [] # qs"
        by (auto simp: add_piece_Some)
      from "4.IH"(4) [OF Cons False m] Cons ps show ?thesis by simp
    qed
  qed
qed

text \<open>
  \<open>re.sub(pattern, repl, s)\<close>: the leftmost match is replaced and the search goes on
  after it. \<open>repl\<close> receives the pieces of the match. Every pattern of the scripts starts
  with a non-empty literal, so no match is empty; after an empty match the model copies
  one character and goes on.
\<close>

function re_sub :: "atom list \<Rightarrow> (string list \<Rightarrow> string) \<Rightarrow> string \<Rightarrow> string" where
  "re_sub pat repl [] = (case rmatch pat [] of Some (ps, r) \<Rightarrow> repl ps | None \<Rightarrow> [])"
| "re_sub pat repl (c # cs) =
     (case rmatch pat (c # cs) of
        Some (ps, r) \<Rightarrow>
          (if concat ps = [] then repl ps @ c # re_sub pat repl cs
           else repl ps @ re_sub pat repl r)
      | None \<Rightarrow> c # re_sub pat repl cs)"
  by pat_completeness auto
termination
proof (relation "measure (\<lambda>(pat, repl, s). length s)")
  show "wf (measure (\<lambda>(pat, repl, s). length s))" by simp
next
  fix pat :: "atom list" and repl :: "string list \<Rightarrow> string" and c cs x2 x y
  assume "rmatch pat (c # cs) = Some x2" and "(x, y) = x2" and "concat x \<noteq> []"
  then have "c # cs = concat x @ y" and "concat x \<noteq> []"
    using rmatch_concat [of pat "c # cs" x y] by auto
  then have "length y < length (c # cs)"
    by (metis length_append length_greater_0_conv less_add_same_cancel2)
  then show "((pat, repl, y), (pat, repl, c # cs)) \<in> measure (\<lambda>(pat, repl, s). length s)"
    by simp
qed auto

text \<open>The text of the pieces \<open>i..<j\<close> of a match: a group of the pattern.\<close>

definition pieces :: "nat \<Rightarrow> nat \<Rightarrow> string list \<Rightarrow> string" where
  "pieces i j ps = concat (take (j - i) (drop i ps))"

subsection \<open>The matcher, step by step\<close>

text \<open>
  The same matcher written as one function per decision, so that a match on a given text
  unfolds one step at a time: each function receives the outcome of a test and makes the
  call that follows it. The lemmas \<open>regex_eval\<close> below relate them to \<open>rmatch\<close> and
  \<open>re_sub\<close>.
\<close>

fun strip_if :: "bool \<Rightarrow> string \<Rightarrow> string \<Rightarrow> string option" where
  "strip_if True ps cs = strip_prefix ps cs"
| "strip_if False ps cs = None"

fun lit_next :: "string \<Rightarrow> atom list \<Rightarrow> string option \<Rightarrow> (string list \<times> string) option" where
  "lit_next l as None = None"
| "lit_next l as (Some s') = add_piece l (rmatch as s')"

fun lazy_ext :: "bool \<Rightarrow> (char \<Rightarrow> bool) \<Rightarrow> atom list \<Rightarrow> char \<Rightarrow> string
    \<Rightarrow> (string list \<times> string) option" where
  "lazy_ext True cls as c cs = extend_first c (rmatch (LazyStar cls # as) cs)"
| "lazy_ext False cls as c cs = None"

fun lazy_pick :: "(string list \<times> string) option \<Rightarrow> (char \<Rightarrow> bool) \<Rightarrow> atom list \<Rightarrow> char \<Rightarrow> string
    \<Rightarrow> (string list \<times> string) option" where
  "lazy_pick (Some m) cls as c cs = add_piece [] (Some m)"
| "lazy_pick None cls as c cs = lazy_ext (cls c) cls as c cs"

fun star_alt :: "(string list \<times> string) option \<Rightarrow> atom list \<Rightarrow> char \<Rightarrow> string
    \<Rightarrow> (string list \<times> string) option" where
  "star_alt (Some m) as c cs = Some m"
| "star_alt None as c cs = add_piece [] (rmatch as (c # cs))"

fun star_pick :: "bool \<Rightarrow> (char \<Rightarrow> bool) \<Rightarrow> atom list \<Rightarrow> char \<Rightarrow> string
    \<Rightarrow> (string list \<times> string) option" where
  "star_pick True cls as c cs = star_alt (extend_first c (rmatch (Star cls # as) cs)) as c cs"
| "star_pick False cls as c cs = add_piece [] (rmatch as (c # cs))"

fun sub_at :: "bool \<Rightarrow> string list \<Rightarrow> string \<Rightarrow> atom list \<Rightarrow> (string list \<Rightarrow> string) \<Rightarrow> char
    \<Rightarrow> string \<Rightarrow> string" where
  "sub_at True ps r pat repl c cs = repl ps @ c # re_sub pat repl cs"
| "sub_at False ps r pat repl c cs = repl ps @ re_sub pat repl r"

fun sub_pick :: "(string list \<times> string) option \<Rightarrow> atom list \<Rightarrow> (string list \<Rightarrow> string) \<Rightarrow> char
    \<Rightarrow> string \<Rightarrow> string" where
  "sub_pick None pat repl c cs = c # re_sub pat repl cs"
| "sub_pick (Some (ps, r)) pat repl c cs = sub_at (concat ps = []) ps r pat repl c cs"

section \<open>Substitutions that fill an empty list\<close>

text \<open>What a match gives to each element of the pattern.\<close>

fun piece_ok :: "atom \<Rightarrow> string \<Rightarrow> bool" where
  "piece_ok (Lit l) p = (p = l)"
| "piece_ok (Star cls) p = list_all cls p"
| "piece_ok (LazyStar cls) p = list_all cls p"

text \<open>
  \<open>fills x s s'\<close>: the text \<open>s'\<close> is \<open>s\<close> with \<open>x\<close> put into some of its empty lists, right
  after the opening parenthesis of a list that holds white space only.
\<close>

inductive fills :: "string \<Rightarrow> string \<Rightarrow> string \<Rightarrow> bool" for x :: string where
  fills_Nil: "fills x [] []"
| fills_Cons: "fills x s s' \<Longrightarrow> fills x (c # s) (c # s')"
| fills_Fill: "list_all py_isspace w \<Longrightarrow> fills x s s'
     \<Longrightarrow> fills x (CHR ''('' # w @ CHR '')'' # s) (CHR ''('' # x @ w @ CHR '')'' # s')"

text \<open>
  A pattern and a replacement have the shape of a fill when every match holds an empty
  list and the replacement is the match with \<open>x\<close> put into that list.
\<close>

definition fill_shape :: "atom list \<Rightarrow> (string list \<Rightarrow> string) \<Rightarrow> string \<Rightarrow> bool" where
  "fill_shape pat repl x \<longleftrightarrow>
     (\<forall>s ps r. rmatch pat s = Some (ps, r) \<longrightarrow>
        (\<exists>g w t. concat ps = g @ CHR ''('' # w @ CHR '')'' # t \<and> list_all py_isspace w
           \<and> repl ps = g @ CHR ''('' # x @ w @ CHR '')'' # t))"

text \<open>
  \<open>keeps s s'\<close>: every text without an opening parenthesis that \<open>s\<close> starts with or
  holds, \<open>s'\<close> starts with or holds as well.
\<close>

definition keeps :: "string \<Rightarrow> string \<Rightarrow> bool" where
  "keeps s s' \<longleftrightarrow> (\<forall>w. CHR ''('' \<notin> set w \<longrightarrow>
      (startswith s w \<longrightarrow> startswith s' w) \<and> (py_in w s \<longrightarrow> py_in w s'))"

section \<open>The identifier allocator: \<open>generate_uuid\<close>\<close>

text \<open>
  \<open>uuid.uuid4()\<close> reads 16 bytes from the system's entropy source and fixes the version
  and variant bits; \<open>str\<close> prints the 128-bit value as 32 lower-case hexadecimal digits
  in groups of 8-4-4-4-12 separated by dashes. The entropy source is an input of the
  model: an infinite sequence of 128-bit draws, consumed one draw per call.
\<close>

type_synonym rng = "nat \<Rightarrow> 128 word"

definition uuid4_int :: "128 word \<Rightarrow> 128 word" where
  "uuid4_int r =
     (let i1 = r AND NOT (push_bit 48 0xc000);
          i2 = i1 OR push_bit 48 0x8000;
          i3 = i2 AND NOT (push_bit 64 0xf000);
          i4 = i3 OR push_bit 76 4
      in i4)"

definition hex_digit :: "nat \<Rightarrow> char" where
  "hex_digit d = ''0123456789abcdef'' ! d"

text \<open>\<open>'%0nx' % v\<close> for a value below \<open>16 ^ n\<close>.\<close>

fun to_hex :: "nat \<Rightarrow> 128 word \<Rightarrow> string" where
  "to_hex 0 v = []"
| "to_hex (Suc n) v = to_hex n (drop_bit 4 v) @ [hex_digit (unat (v AND 15))]"

definition uuid_str :: "128 word \<Rightarrow> string" where
  "uuid_str i =
     (let hex = to_hex 32 i
      in take 8 hex @ ''-'' @ take 4 (drop 8 hex) @ ''-'' @ take 4 (drop 12 hex) @ ''-''
         @ take 4 (drop 16 hex) @ ''-'' @ drop 20 hex)"

text \<open>\<open>str(uuid.uuid4()).upper().replace('-', '')\<close> for the draw \<open>r\<close>.\<close>

definition uuid_token :: "128 word \<Rightarrow> string" where
  "uuid_token r = py_replace ''-'' [] (py_upper (uuid_str (uuid4_int r)))"

definition generate_uuid :: "rng \<Rightarrow> string \<times> rng" where
  "generate_uuid g = (uuid_token (g 0), \<lambda>n. g (Suc n))"

text \<open>The alphabets of hexadecimal digits.\<close>

definition hex_upper :: "char set" where
  "hex_upper = set ''0123456789ABCDEF''"



section \<open>\<open>modify_horizon_project.py\<close>: \<open>get_product_name\<close>\<close>

record package =
  pkg_name :: string
  pkg_url :: string
  pkg_version :: string

definition packages :: "package list" where
  "packages =
     [\<lparr>pkg_name = ''ATProtoKit'', pkg_url = ''https://github.com/MasterJ93/ATProtoKit'',
        pkg_version = ''0.31.2''\<rparr>,
      \<lparr>pkg_name = ''keychain-swift'', pkg_url = ''https://github.com/evgenyneu/keychain-swift'',
        pkg_version = ''24.0.0''\<rparr>,
      \<lparr>pkg_name = ''AppRouter'', pkg_url = ''https://github.com/Dimillian/AppRouter.git'',
        pkg_version = ''1.0.2''\<rparr>,
      \<lparr>pkg_name = ''Nuke'', pkg_url = ''https://github.com/kean/Nuke'',
        pkg_version = ''12.8.0''\<rparr>,
      \<lparr>pkg_name = ''ViewInspector'', pkg_url = ''https://github.com/nalexn/ViewInspector'',
        pkg_version = ''0.10.1''\<rparr>,
      \<lparr>pkg_name = ''AcknowList'', pkg_url = ''https://github.com/vtourraine/AcknowList'',
        pkg_version = ''3.3.0''\<rparr>]"

text \<open>
  The names written as \<open>productName\<close> by \<open>add_packages_to_project\<close>: the package's name,
  and for Nuke its two products.
\<close>

definition product_names :: "string list" where
  "product_names =
     [''ATProtoKit'', ''keychain-swift'', ''AppRouter'', ''Nuke'', ''NukeUI'', ''ViewInspector'',
      ''AcknowList'']"

definition get_product_name :: "string \<Rightarrow> package list \<Rightarrow> string" where
  "get_product_name product_uuid pkgs =
     (if py_in ''ATProtoKit'' product_uuid then ''ATProtoKit''
      else if py_in ''keychain'' product_uuid then ''KeychainSwift''
      else if py_in ''AppRouter'' product_uuid then ''AppRouter''
      else if py_in ''Nuke'' product_uuid then ''Nuke''
      else if py_in ''ViewInspector'' product_uuid then ''ViewInspector''
      else if py_in ''AcknowList'' product_uuid then ''AcknowList''
      else ''Package'')"

section \<open>\<open>modify_horizon_project.py\<close>: \<open>add_packages_to_project\<close>\<close>

text \<open>The three lists the loop over \<open>packages\<close> fills.\<close>

record sections =
  package_references :: "string list"
  package_products :: "string list"
  product_dependencies :: "string list"

definition package_reference_text :: "string \<Rightarrow> package \<Rightarrow> string" where
  \<open>package_reference_text ref_uuid p =
     concat
       [tabs 2, ref_uuid, '' /* '', pkg_name p, '' */ = {\<newline>'',
        tabs 3, ''isa = XCRemoteSwiftPackageReference;\<newline>'',
        tabs 3, ''repositoryURL = "'', pkg_url p, ''";\<newline>'',
        tabs 3, ''requirement = {\<newline>'',
        tabs 4, ''kind = upToNextMajorVersion;\<newline>'',
        tabs 4, ''minimumVersion = "'', pkg_version p, ''";\<newline>'',
        tabs 3, ''};\<newline>'',
        tabs 3, ''};'']\<close>

definition package_product_text :: "string \<Rightarrow> string \<Rightarrow> string \<Rightarrow> package \<Rightarrow> string" where
  \<open>package_product_text product_uuid product ref_uuid p =
     concat
       [tabs 2, product_uuid, '' /* '', product, '' */ = {\<newline>'',
        tabs 3, ''isa = XCSwiftPackageProductDependency;\<newline>'',
        tabs 3, ''package = '', ref_uuid, '' /* '', pkg_name p, '' */;\<newline>'',
        tabs 3, ''productName = '', product, '';\<newline>'',
        tabs 3, ''};'']\<close>

text \<open>One turn of the loop \<open>for package in packages\<close>.\<close>

definition add_package :: "sections \<times> rng \<Rightarrow> package \<Rightarrow> sections \<times> rng" where
  "add_package st p =
     (let (secs, g) = st;
          (ref_uuid, g1) = generate_uuid g;
          refs = package_references secs @ [package_reference_text ref_uuid p]
      in if pkg_name p = ''Nuke''
         then (let (product1_uuid, g2) = generate_uuid g1;
                   (product2_uuid, g3) = generate_uuid g2
               in (\<lparr>package_references = refs,
                    package_products = package_products secs @
                      [package_product_text product1_uuid ''Nuke'' ref_uuid p,
                       package_product_text product2_uuid ''NukeUI'' ref_uuid p],
                    product_dependencies = product_dependencies secs @
                      [product1_uuid, product2_uuid]\<rparr>, g3))
         else (let (product_uuid, g2) = generate_uuid g1
               in (\<lparr>package_references = refs,
                    package_products = package_products secs @
                      [package_product_text product_uuid (pkg_name p) ref_uuid p],
                    product_dependencies = product_dependencies secs @ [product_uuid]\<rparr>, g2)))"

definition generate_sections :: "package list \<Rightarrow> rng \<Rightarrow> sections \<times> rng" where
  "generate_sections pkgs g =
     foldl add_package
       (\<lparr>package_references = [], package_products = [], product_dependencies = []\<rparr>, g) pkgs"












section \<open>\<open>fix_module_imports.py\<close>\<close>

definition internal_modules :: "string set" where
  "internal_modules =
     {''AuthUI'', ''ChatUI'', ''ComposerUI'', ''DesignSystem'', ''FeedUI'', ''MediaUI'',
      ''NotificationsUI'', ''PostUI'', ''ProfileUI'', ''SettingsUI'', ''Client'', ''Models'',
      ''User'', ''Destinations''}"

text \<open>
  The loop \<open>for line in lines\<close>: the lines appended to \<open>filtered_lines\<close>, in order.
\<close>

fun filter_lines :: "string list \<Rightarrow> string list" where
  "filter_lines [] = []"
| "filter_lines (line # rest) =
     (let stripped = py_strip line
      in if startswith stripped ''import ''
         then (let module_name = py_strip (drop 7 stripped)
               in if module_name \<in> internal_modules then filter_lines rest
                  else line # filter_lines rest)
         else line # filter_lines rest)"

text \<open>
  \<open>new_content\<close> for the \<open>content\<close> of one Swift file. The script writes it back when it
  differs from the text read, so it is the file's text after the script in both cases.
\<close>

definition fix_content :: "string \<Rightarrow> string" where
  "fix_content content = py_join ''\<newline>'' (filter_lines (py_split (CHR ''\<newline>'') content))"

text \<open>The test the loop makes on a line, as one predicate.\<close>

definition removed_by_code :: "string \<Rightarrow> bool" where
  "removed_by_code line \<longleftrightarrow>
     startswith (py_strip line) ''import ''
     \<and> py_strip (drop 7 (py_strip line)) \<in> internal_modules"

text \<open>
  The lines the script is meant to drop, stated without the code: after stripping, the
  line is \<open>import\<close>, a space, possibly more white space, and the name of an internal
  module.
\<close>

definition import_of_internal :: "string \<Rightarrow> bool" where
  "import_of_internal line \<longleftrightarrow>
     (\<exists>ws m. m \<in> internal_modules \<and> set ws \<subseteq> Collect py_isspace
        \<and> py_strip line = ''import '' @ ws @ m)"

section \<open>\<open>add_frameworks.py\<close>\<close>

text \<open>
  \<open>frameworks_pattern\<close>: the record of the Frameworks build phase, lazily up to a
  \<open>files = (\<close> that is followed by white space and \<open>);\<close>, then lazily up to the next
  \<open>};\<close>. Group 1 is the pieces \<open>0..<3\<close>, group 2 the pieces \<open>3..<7\<close>.
\<close>

definition any_char :: "char \<Rightarrow> bool" where
  "any_char c = True"

definition frameworks_pattern :: "atom list" where
  "frameworks_pattern =
     [Lit ''1D1A9BBB2E761986002B8F85 /* Frameworks */ = {'', LazyStar any_char,
      Lit ''files = ('', Star py_isspace, Lit '');'', LazyStar any_char, Lit ''};'']"

definition framework_files :: "string list" where
  \<open>framework_files =
     [concat [tabs 4, ''1D60000F22D4FAF6008BF43F /* UIKit.framework in Frameworks */,''],
      concat [tabs 4, ''1D60001022D4FAF6008BF43F /* Foundation.framework in Frameworks */,''],
      concat [tabs 4, ''1D60001122D4FAF6008BF43F /* SwiftUI.framework in Frameworks */,''],
      concat [tabs 4, ''1D60001222D4FAF6008BF43F /* Combine.framework in Frameworks */,''],
      concat [tabs 4, ''1D60001322D4FAF6008BF43F /* CoreData.framework in Frameworks */,'']]\<close>

definition framework_package_products :: "string list" where
  \<open>framework_package_products =
     [concat [tabs 4, ''1D60001422D4FAF6008BF43F /* ATProtoKit in Frameworks */,''],
      concat [tabs 4, ''1D60001522D4FAF6008BF43F /* KeychainSwift in Frameworks */,''],
      concat [tabs 4, ''1D60001622D4FAF6008BF43F /* AppRouter in Frameworks */,''],
      concat [tabs 4, ''1D60001722D4FAF6008BF43F /* Nuke in Frameworks */,''],
      concat [tabs 4, ''1D60001822D4FAF6008BF43F /* NukeUI in Frameworks */,''],
      concat [tabs 4, ''1D60001922D4FAF6008BF43F /* ViewInspector in Frameworks */,''],
      concat [tabs 4, ''1D60001A22D4FAF6008BF43F /* AcknowList in Frameworks */,'']]\<close>

definition replace_frameworks :: "string \<Rightarrow> string \<Rightarrow> string" where
  \<open>replace_frameworks prefix suffix =
     (let framework_section = py_join ''\<newline>'' framework_files;
          package_section = py_join ''\<newline>'' framework_package_products
      in prefix @ framework_section @ ''\<newline>'' @ package_section @ suffix)\<close>

definition pbxbuildfile_pattern :: "atom list" where
  \<open>pbxbuildfile_pattern = [Lit ''/* Begin PBXBuildFile section */\<newline>'']\<close>

definition buildfile_entries :: string where
  \<open>buildfile_entries =
     concat
       [''/* UIKit.framework */\<newline>'', tabs 2,
        ''1D60000F22D4FAF6008BF43F /* UIKit.framework in Frameworks */ = {isa = PBXBuildFile; fileRef = 1D60000E22D4FAF6008BF43F /* UIKit.framework */; };\<newline>'',
        ''/* Foundation.framework */\<newline>'', tabs 2,
        ''1D60001022D4FAF6008BF43F /* Foundation.framework in Frameworks */ = {isa = PBXBuildFile; fileRef = 1D60000D22D4FAF6008BF43F /* Foundation.framework */; };\<newline>'',
        ''/* SwiftUI.framework */\<newline>'', tabs 2,
        ''1D60001122D4FAF6008BF43F /* SwiftUI.framework in Frameworks */ = {isa = PBXBuildFile; fileRef = 1D60000C22D4FAF6008BF43F /* SwiftUI.framework */; };\<newline>'',
        ''/* Combine.framework */\<newline>'', tabs 2,
        ''1D60001222D4FAF6008BF43F /* Combine.framework in Frameworks */ = {isa = PBXBuildFile; fileRef = 1D60000B22D4FAF6008BF43F /* Combine.framework */; };\<newline>'',
        ''/* CoreData.framework */\<newline>'', tabs 2,
        ''1D60001322D4FAF6008BF43F /* CoreData.framework in Frameworks */ = {isa = PBXBuildFile; fileRef = 1D60000A22D4FAF6008BF43F /* CoreData.framework */; };\<newline>'',
        ''/* ATProtoKit */\<newline>'', tabs 2,
        ''1D60001422D4FAF6008BF43F /* ATProtoKit in Frameworks */ = {isa = PBXBuildFile; productRef = 1D60002022D4FAF6008BF43F /* ATProtoKit */; };\<newline>'',
        ''/* KeychainSwift */\<newline>'', tabs 2,
        ''1D60001522D4FAF6008BF43F /* KeychainSwift in Frameworks */ = {isa = PBXBuildFile; productRef = 1D60002122D4FAF6008BF43F /* KeychainSwift */; };\<newline>'',
        ''/* AppRouter */\<newline>'', tabs 2,
        ''1D60001622D4FAF6008BF43F /* AppRouter in Frameworks */ = {isa = PBXBuildFile; productRef = 1D60002222D4FAF6008BF43F /* AppRouter */; };\<newline>'',
        ''/* Nuke */\<newline>'', tabs 2,
        ''1D60001722D4FAF6008BF43F /* Nuke in Frameworks */ = {isa = PBXBuildFile; productRef = 1D60002322D4FAF6008BF43F /* Nuke */; };\<newline>'',
        ''/* NukeUI */\<newline>'', tabs 2,
        ''1D60001822D4FAF6008BF43F /* NukeUI in Frameworks */ = {isa = PBXBuildFile; productRef = 1D60002422D4FAF6008BF43F /* NukeUI */; };\<newline>'',
        ''/* ViewInspector */\<newline>'', tabs 2,
        ''1D60001922D4FAF6008BF43F /* ViewInspector in Frameworks */ = {isa = PBXBuildFile; productRef = 1D60002522D4FAF6008BF43F /* ViewInspector */; };\<newline>'',
        ''/* AcknowList */\<newline>'', tabs 2,
        ''1D60001A22D4FAF6008BF43F /* AcknowList in Frameworks */ = {isa = PBXBuildFile; productRef = 1D60002622D4FAF6008BF43F /* AcknowList */; };\<newline>'']\<close>

text \<open>
  The text \<open>add_framework_dependencies\<close> writes back for the text it read. The name
  \<open>package_products\<close> of the script is \<open>framework_package_products\<close> here.
\<close>

definition add_framework_dependencies :: "string \<Rightarrow> string" where
  "add_framework_dependencies content =
     (let new_content =
            re_sub frameworks_pattern (\<lambda>ps. replace_frameworks (pieces 0 3 ps) (pieces 3 7 ps))
              content
      in if \<not> py_in ''1D60000F22D4FAF6008BF43F'' new_content
         then re_sub pbxbuildfile_pattern (\<lambda>ps. pieces 0 1 ps @ buildfile_entries) new_content
         else new_content)"

text \<open>The text \<open>replace_frameworks\<close> puts between the two groups of a match.\<close>

definition frameworks_entries :: string where
  \<open>frameworks_entries =
     py_join ''\<newline>'' framework_files @ ''\<newline>'' @ py_join ''\<newline>'' framework_package_products\<close>

section \<open>\<open>complete_framework_fix.py\<close>\<close>

definition cf_buildfile_entries :: string where
  \<open>cf_buildfile_entries =
     concat
       [''/* UIKit.framework */\<newline>'', tabs 2,
        ''1D60000F22D4FAF6008BF43F /* UIKit.framework in Frameworks */ = {isa = PBXBuildFile; fileRef = 1D60000E22D4FAF6008BF43F /* UIKit.framework */; };\<newline>'',
        ''/* Foundation.framework */\<newline>'', tabs 2,
        ''1D60001022D4FAF6008BF43F /* Foundation.framework in Frameworks */ = {isa = PBXBuildFile; fileRef = 1D60000D22D4FAF6008BF43F /* Foundation.framework */; };\<newline>'',
        ''/* SwiftUI.framework */\<newline>'', tabs 2,
        ''1D60001122D4FAF6008BF43F /* SwiftUI.framework in Frameworks */ = {isa = PBXBuildFile; fileRef = 1D60000C22D4FAF6008BF43F /* SwiftUI.framework */; };\<newline>'',
        ''/* Combine.framework */\<newline>'', tabs 2,
        ''1D60001222D4FAF6008BF43F /* Combine.framework in Frameworks */ = {isa = PBXBuildFile; fileRef = 1D60000B22D4FAF6008BF43F /* Combine.framework */; };\<newline>'',
        ''/* CoreData.framework */\<newline>'', tabs 2,
        ''1D60001322D4FAF6008BF43F /* CoreData.framework in Frameworks */ = {isa = PBXBuildFile; fileRef = 1D60000A22D4FAF6008BF43F /* CoreData.framework */; };\<newline>'',
        ''/* ATProtoKit */\<newline>'', tabs 2,
        ''1D60001422D4FAF6008BF43F /* ATProtoKit in Frameworks */ = {isa = PBXBuildFile; productRef = 1D60002022D4FAF6008BF43F /* ATProtoKit */; };\<newline>'',
        ''/* KeychainSwift */\<newline>'', tabs 2,
        ''1D60001522D4FAF6008BF43F /* KeychainSwift in Frameworks */ = {isa = PBXBuildFile; productRef = 1D60002122D4FAF6008BF43F /* KeychainSwift */; };\<newline>'',
        ''/* AppRouter */\<newline>'', tabs 2,
        ''1D60001622D4FAF6008BF43F /* AppRouter in Frameworks */ = {isa = PBXBuildFile; productRef = 1D60002222D4FAF6008BF43F /* AppRouter */; };\<newline>'',
        ''/* Nuke */\<newline>'', tabs 2,
        ''1D60001722D4FAF6008BF43F /* Nuke in Frameworks */ = {isa = PBXBuildFile; productRef = 1D60002322D4FAF6008BF43F /* Nuke */; };\<newline>'',
        ''/* NukeUI */\<newline>'', tabs 2,
        ''1D60001822D4FAF6008BF43F /* NukeUI in Frameworks */ = {isa = PBXBuildFile; productRef = 1D60002422D4FAF6008BF43F /* NukeUI */; };\<newline>'',
        ''/* ViewInspector */\<newline>'', tabs 2,
        ''1D60001922D4FAF6008BF43F /* ViewInspector in Frameworks */ = {isa = PBXBuildFile; productRef = 1D60002522D4FAF6008BF43F /* ViewInspector */; };\<newline>'',
        ''/* AcknowList */\<newline>'', tabs 2,
        ''1D60001A22D4FAF6008BF43F /* AcknowList in Frameworks */ = {isa = PBXBuildFile; productRef = 1D60002622D4FAF6008BF43F /* AcknowList */; };\<newline>'',
        ''\<newline>'']\<close>

definition fileref_entries :: string where
  \<open>fileref_entries =
     concat
       [''/* UIKit.framework */\<newline>'', tabs 2,
        ''1D60000E22D4FAF6008BF43F /* UIKit.framework */ = {isa = PBXFileReference; lastKnownFileType = wrapper.framework; name = UIKit.framework; path = Platforms/iPhoneOS.platform/Developer/SDKs/iPhoneOS18.6.sdk/System/Library/Frameworks/UIKit.framework; sourceTree = DEVELOPER_DIR; };\<newline>'',
        ''/* Foundation.framework */\<newline>'', tabs 2,
        ''1D60000D22D4FAF6008BF43F /* Foundation.framework */ = {isa = PBXFileReference; lastKnownFileType = wrapper.framework; name = Foundation.framework; path = Platforms/iPhoneOS.platform/Developer/SDKs/iPhoneOS18.6.sdk/System/Library/Frameworks/Foundation.framework; sourceTree = DEVELOPER_DIR; };\<newline>'',
        ''/* SwiftUI.framework */\<newline>'', tabs 2,
        ''1D60000C22D4FAF6008BF43F /* SwiftUI.framework */ = {isa = PBXFileReference; lastKnownFileType = wrapper.framework; name = SwiftUI.framework; path = Platforms/iPhoneOS.platform/Developer/SDKs/iPhoneOS18.6.sdk/System/Library/Frameworks/SwiftUI.framework; sourceTree = DEVELOPER_DIR; };\<newline>'',
        ''/* Combine.framework */\<newline>'', tabs 2,
        ''1D60000B22D4FAF6008BF43F /* Combine.framework */ = {isa = PBXFileReference; lastKnownFileType = wrapper.framework; name = Combine.framework; path = Platforms/iPhoneOS.platform/Developer/SDKs/iPhoneOS18.6.sdk/System/Library/Frameworks/Combine.framework; sourceTree = DEVELOPER_DIR; };\<newline>'',
        ''/* CoreData.framework */\<newline>'', tabs 2,
        ''1D60000A22D4FAF6008BF43F /* CoreData.framework */ = {isa = PBXFileReference; lastKnownFileType = wrapper.framework; name = CoreData.framework; path = Platforms/iPhoneOS.platform/Developer/SDKs/iPhoneOS18.6.sdk/System/Library/Frameworks/CoreData.framework; sourceTree = DEVELOPER_DIR; };\<newline>'',
        ''\<newline>'']\<close>

definition package_refs :: string where
  \<open>package_refs =
     concat
       [''/* ATProtoKit */\<newline>'', tabs 2,
        ''1D60001B22D4FAF6008BF43F /* XCRemoteSwiftPackageReference "ATProtoKit" */ = {isa = XCRemoteSwiftPackageReference; repositoryURL = "https://github.com/MasterJ93/ATProtoKit"; requirement = {kind = upToNextMajorVersion; minimumVersion = "0.31.2";}; };\<newline>'',
        ''/* KeychainSwift */\<newline>'', tabs 2,
        ''1D60001C22D4FAF6008BF43F /* XCRemoteSwiftPackageReference "KeychainSwift" */ = {isa = XCRemoteSwiftPackageReference; repositoryURL = "https://github.com/evgenyneu/keychain-swift"; requirement = {kind = upToNextMajorVersion; minimumVersion = "24.0.0";}; };\<newline>'',
        ''/* AppRouter */\<newline>'', tabs 2,
        ''1D60001D22D4FAF6008BF43F /* XCRemoteSwiftPackageReference "AppRouter" */ = {isa = XCRemoteSwiftPackageReference; repositoryURL = "https://github.com/Dimillian/AppRouter.git"; requirement = {kind = upToNextMajorVersion; minimumVersion = "1.0.2";}; };\<newline>'',
        ''/* Nuke */\<newline>'', tabs 2,
        ''1D60001E22D4FAF6008BF43F /* XCRemoteSwiftPackageReference "Nuke" */ = {isa = XCRemoteSwiftPackageReference; repositoryURL = "https://github.com/kean/Nuke"; requirement = {kind = upToNextMajorVersion; minimumVersion = "12.8.0";}; };\<newline>'',
        ''/* NukeUI */\<newline>'', tabs 2,
        ''1D60001F22D4FAF6008BF43F /* XCRemoteSwiftPackageReference "NukeUI" */ = {isa = XCRemoteSwiftPackageReference; repositoryURL = "https://github.com/kean/Nuke"; requirement = {kind = upToNextMajorVersion; minimumVersion = "12.8.0";}; };\<newline>'',
        ''/* ViewInspector */\<newline>'', tabs 2,
        ''1D60002022D4FAF6008BF43F /* XCRemoteSwiftPackageReference "ViewInspector" */ = {isa = XCRemoteSwiftPackageReference; repositoryURL = "https://github.com/nalexn/ViewInspector"; requirement = {kind = upToNextMajorVersion; minimumVersion = "0.10.1";}; };\<newline>'',
        ''/* AcknowList */\<newline>'', tabs 2,
        ''1D60002122D4FAF6008BF43F /* XCRemoteSwiftPackageReference "AcknowList" */ = {isa = XCRemoteSwiftPackageReference; repositoryURL = "https://github.com/vtourraine/AcknowList"; requirement = {kind = upToNextMajorVersion; minimumVersion = "3.3.0";}; };\<newline>'',
        ''\<newline>'']\<close>

definition product_refs :: string where
  \<open>product_refs =
     concat
       [''/* ATProtoKit */\<newline>'', tabs 2,
        ''1D60002222D4FAF6008BF43F /* ATProtoKit */ = {isa = XCRemoteSwiftPackageProduct; productName = ATProtoKit; };\<newline>'',
        ''/* KeychainSwift */\<newline>'', tabs 2,
        ''1D60002322D4FAF6008BF43F /* KeychainSwift */ = {isa = XCRemoteSwiftPackageProduct; productName = KeychainSwift; };\<newline>'',
        ''/* AppRouter */\<newline>'', tabs 2,
        ''1D60002422D4FAF6008BF43F /* AppRouter */ = {isa = XCRemoteSwiftPackageProduct; productName = AppRouter; };\<newline>'',
        ''/* Nuke */\<newline>'', tabs 2,
        ''1D60002522D4FAF6008BF43F /* Nuke */ = {isa = XCRemoteSwiftPackageProduct; productName = Nuke; };\<newline>'',
        ''/* NukeUI */\<newline>'', tabs 2,
        ''1D60002622D4FAF6008BF43F /* NukeUI */ = {isa = XCRemoteSwiftPackageProduct; productName = NukeUI; };\<newline>'',
        ''/* ViewInspector */\<newline>'', tabs 2,
        ''1D60002722D4FAF6008BF43F /* ViewInspector */ = {isa = XCRemoteSwiftPackageProduct; productName = ViewInspector; };\<newline>'',
        ''/* AcknowList */\<newline>'', tabs 2,
        ''1D60002822D4FAF6008BF43F /* AcknowList */ = {isa = XCRemoteSwiftPackageProduct; productName = AcknowList; };\<newline>'',
        ''\<newline>'']\<close>

definition fileref_pattern :: "atom list" where
  \<open>fileref_pattern = [Lit ''/* Begin PBXFileReference section */\<newline>'']\<close>

text \<open>\<open>project_pattern\<close>: group 1 is the pieces \<open>0..<2\<close>, and a closing brace follows.\<close>

definition project_pattern :: "atom list" where
  \<open>project_pattern =
     [Lit ''rootObject = 1D1A9BB62E761986002B8F85 /* Project object */;'', LazyStar any_char,
      Lit ''}'']\<close>

definition add_packages :: "string \<Rightarrow> string" where
  \<open>add_packages project_content =
     project_content @ ''packageReferences = (\<newline>'' @ package_refs @ '');\<newline>'' @ tabs 1 @ ''}''\<close>

text \<open>\<open>group_pattern\<close>: group 1 is the pieces \<open>0..<3\<close>, group 2 the pieces \<open>3..<5\<close>.\<close>

definition group_pattern :: "atom list" where
  \<open>group_pattern =
     [Lit ''1D1A9BB52E761986002B8F85 = {'', LazyStar any_char, Lit ''children = ('',
      Star py_isspace, Lit '');'']\<close>

definition add_products :: "string \<Rightarrow> string \<Rightarrow> string" where
  \<open>add_products prefix suffix =
     prefix @ ''1D60002922D4FAF6008BF43F /* Products */,\<newline>'' @ suffix\<close>

text \<open>
  \<open>products_group\<close> is a plain string of the script, not an f-string: the text
  \<open>{product_refs}\<close> stays in it as written.
\<close>

definition products_group :: string where
  \<open>products_group =
     concat
       [''/* Products */\<newline>'', tabs 2,
        ''1D60002922D4FAF6008BF43F /* Products */ = {\<newline>'', tabs 3,
        ''isa = PBXGroup;\<newline>'', tabs 3, ''children = (\<newline>'',
        ''{product_refs}\<newline>'', tabs 3, '');\<newline>'', tabs 3,
        ''name = Products;\<newline>'', tabs 3, ''sourceTree = "<group>";\<newline>'', tabs 2,
        ''};\<newline>'']\<close>

definition main_group_pattern :: "atom list" where
  \<open>main_group_pattern =
     [Lit (''sourceTree = "<group>";\<newline>'' @ tabs 1 @ ''};\<newline>'')]\<close>

text \<open>The four steps of \<open>complete_framework_fix\<close>, each on the text the step before left.\<close>

definition add_buildfile_entries :: "string \<Rightarrow> string" where
  "add_buildfile_entries content =
     (if \<not> py_in ''1D60000F22D4FAF6008BF43F'' content
      then re_sub pbxbuildfile_pattern (\<lambda>ps. pieces 0 1 ps @ cf_buildfile_entries) content
      else content)"

definition add_fileref_entries :: "string \<Rightarrow> string" where
  "add_fileref_entries content =
     (if \<not> py_in ''1D60000E22D4FAF6008BF43F /* UIKit.framework */'' content
      then re_sub fileref_pattern (\<lambda>ps. pieces 0 1 ps @ fileref_entries) content
      else content)"

definition add_package_references :: "string \<Rightarrow> string" where
  "add_package_references content =
     (if \<not> py_in ''XCRemoteSwiftPackageReference'' content
      then re_sub project_pattern (\<lambda>ps. add_packages (pieces 0 2 ps)) content
      else content)"

definition add_product_references :: "string \<Rightarrow> string" where
  "add_product_references content =
     (if \<not> py_in ''XCRemoteSwiftPackageProduct'' content
      then (let content1 =
                  re_sub group_pattern (\<lambda>ps. add_products (pieces 0 3 ps) (pieces 3 5 ps))
                    content
            in if \<not> py_in ''1D60002922D4FAF6008BF43F /* Products */'' content1
               then re_sub main_group_pattern (\<lambda>ps. pieces 0 1 ps @ products_group) content1
               else content1)
      else content)"

text \<open>The text \<open>complete_framework_fix\<close> writes back for the text it read.\<close>

definition complete_framework_fix :: "string \<Rightarrow> string" where
  "complete_framework_fix content =
     add_product_references
       (add_package_references (add_fileref_entries (add_buildfile_entries content)))"

section \<open>\<open>convert_to_xcodeproj.py\<close>\<close>

text \<open>\<open>os.path.basename(p)\<close>: the text after the last slash.\<close>

definition basename :: "string \<Rightarrow> string" where
  "basename p = rev (takeWhile (\<lambda>c. c \<noteq> CHR ''/'') (rev p))"

text \<open>The two f-strings of the loop over \<open>all_files\<close>.\<close>

definition build_file_text :: "string \<Rightarrow> string \<Rightarrow> string" where
  \<open>build_file_text file_uuid name =
     concat [tabs 2, file_uuid, '' /* '', name, '' in Sources */ = {isa = PBXBuildFile; fileRef = '',
             file_uuid, '' /* '', name, '' */; };'']\<close>

definition file_ref_text :: "string \<Rightarrow> string \<Rightarrow> string" where
  \<open>file_ref_text file_uuid name =
     concat [tabs 2, file_uuid, '' /* '', name,
             '' */ = {isa = PBXFileReference; lastKnownFileType = sourcecode.swift; path = "'',
             name, ''"; sourceTree = "<group>"; };'']\<close>

text \<open>
  The loop \<open>for i, file_path in enumerate(all_files)\<close> of \<open>create_project_structure\<close>:
  the lists \<open>build_files\<close> and \<open>file_refs\<close> it fills, and the entropy left. One
  identifier is generated per file and written into both records.
\<close>

fun source_file_entries :: "string list \<Rightarrow> rng \<Rightarrow> (string list \<times> string list) \<times> rng" where
  "source_file_entries [] g = (([], []), g)"
| "source_file_entries (file_path # rest) g =
     (let (file_uuid, g1) = generate_uuid g;
          ((build_files, file_refs), g2) = source_file_entries rest g1
      in ((build_file_text file_uuid (basename file_path) # build_files,
           file_ref_text file_uuid (basename file_path) # file_refs), g2))"

text \<open>
  The identifier of a record of the project file, or of an entry of a list: its first
  token, the text up to the first white space.
\<close>

definition record_id :: "string \<Rightarrow> string" where
  "record_id line = takeWhile (\<lambda>c. \<not> py_isspace c) (dropWhile py_isspace line)"

section \<open>An example project file\<close>

text \<open>
  A project file with the sections the scripts look for: an empty PBXBuildFile section,
  the Frameworks build phase of the Horizon target with an empty file list, and a
  Resources build phase with an empty file list. It is cut in three at the two places
  where a file list opens. \<open>horizon_once\<close> and \<open>horizon_twice\<close> are the same file with
  the framework entries in the first list, and in both lists.
\<close>

definition horizon_head :: string where
  \<open>horizon_head =
     concat
       [''/* Begin PBXBuildFile section */\<newline>'',
        ''/* End PBXBuildFile section */\<newline>'',
        ''\<newline>'',
        ''/* Begin PBXFrameworksBuildPhase section */\<newline>'',
        tabs 2, ''1D1A9BBB2E761986002B8F85 /* Frameworks */ = {\<newline>'',
        tabs 3, ''isa = PBXFrameworksBuildPhase;\<newline>'',
        tabs 3, ''files = ('']\<close>

definition horizon_middle :: string where
  \<open>horizon_middle =
     concat
       [''\<newline>'',
        tabs 3, '');\<newline>'',
        tabs 2, ''};\<newline>'',
        ''/* End PBXFrameworksBuildPhase section */\<newline>'',
        ''\<newline>'',
        ''/* Begin PBXResourcesBuildPhase section */\<newline>'',
        tabs 2, ''1D1A9BBA2E761986002B8F85 /* Resources */ = {\<newline>'',
        tabs 3, ''isa = PBXResourcesBuildPhase;\<newline>'',
        tabs 3, ''files = ('']\<close>

definition horizon_tail :: string where
  \<open>horizon_tail =
     concat
       [''\<newline>'',
        tabs 3, '');\<newline>'',
        tabs 2, ''};\<newline>'',
        ''/* End PBXResourcesBuildPhase section */\<newline>'']\<close>

definition horizon_project :: string where
  "horizon_project = horizon_head @ horizon_middle @ horizon_tail"

definition horizon_once :: string where
  "horizon_once = horizon_head @ frameworks_entries @ horizon_middle @ horizon_tail"

definition horizon_twice :: string where
  "horizon_twice =
     horizon_head @ frameworks_entries @ horizon_middle @ frameworks_entries @ horizon_tail"

section \<open>Reading and writing the project file\<close>

text \<open>
  The file system is a map from paths to texts. \<open>open(path, 'r')\<close> raises when the file
  is missing.
\<close>

type_synonym files = "string \<Rightarrow> string option"











section \<open>Facts about strings\<close>

lemma startswith_iff: "startswith s p \<longleftrightarrow> (\<exists>t. s = p @ t)"
  by (induction s p rule: startswith.induct) auto

lemma startswith_set: "startswith s p \<Longrightarrow> set p \<subseteq> set s"
  by (auto simp: startswith_iff)

lemma startswith_py_in: "startswith s p \<Longrightarrow> py_in p s"
  by (cases s) (auto simp: startswith_iff)

lemma py_in_iff: "py_in sub s \<longleftrightarrow> (\<exists>a b. s = a @ sub @ b)"
proof (induction s)
  case Nil
  then show ?case by auto
next
  case (Cons c cs)
  show ?case
  proof
    assume "py_in sub (c # cs)"
    then consider "startswith (c # cs) sub" | "py_in sub cs" by auto
    then show "\<exists>a b. c # cs = a @ sub @ b"
    proof cases
      case 1
      then obtain t where "c # cs = sub @ t" by (auto simp: startswith_iff)
      then have "c # cs = [] @ sub @ t" by simp
      then show ?thesis by blast
    next
      case 2
      with Cons obtain a b where "cs = a @ sub @ b" by blast
      then have "c # cs = (c # a) @ sub @ b" by simp
      then show ?thesis by blast
    qed
  next
    assume "\<exists>a b. c # cs = a @ sub @ b"
    then obtain a b where ab: "c # cs = a @ sub @ b" by blast
    show "py_in sub (c # cs)"
    proof (cases a)
      case Nil
      with ab have "startswith (c # cs) sub" by (auto simp: startswith_iff)
      then show ?thesis by (rule startswith_py_in)
    next
      case (Cons x a')
      with ab have "cs = a' @ sub @ b" by simp
      with Cons.IH show ?thesis by auto
    qed
  qed
qed

lemma py_in_set: "py_in sub s \<Longrightarrow> set sub \<subseteq> set s"
  by (auto simp: py_in_iff)

lemma py_replace_dash: "py_replace ''-'' [] s = filter (\<lambda>c. c \<noteq> CHR ''-'') s"
  by (induction s) auto

lemma py_split_nonempty: "py_split sep s \<noteq> []"
  by (induction s) (auto split: list.splits)

lemma py_split_no_sep: "x \<in> set (py_split sep s) \<Longrightarrow> sep \<notin> set x"
proof (induction s arbitrary: x)
  case Nil
  then show ?case by simp
next
  case (Cons c cs)
  show ?case
  proof (cases "c = sep")
    case True
    with Cons show ?thesis by auto
  next
    case False
    obtain y ys where ys: "py_split sep cs = y # ys"
      using py_split_nonempty [of sep cs] by (cases "py_split sep cs") auto
    with False Cons.prems have "x = c # y \<or> x \<in> set ys" by simp
    then show ?thesis
    proof
      assume "x = c # y"
      moreover have "sep \<notin> set y" using Cons.IH [of y] ys by simp
      ultimately show ?thesis using False by auto
    next
      assume "x \<in> set ys"
      then show ?thesis using Cons.IH [of x] ys by simp
    qed
  qed
qed

lemma py_split_no_sep_id: "sep \<notin> set x \<Longrightarrow> py_split sep x = [x]"
  by (induction x) auto

lemma py_split_append: "sep \<notin> set x \<Longrightarrow> py_split sep (x @ sep # s) = x # py_split sep s"
  by (induction x) auto

lemma py_split_join:
  assumes "xs \<noteq> []" and "\<forall>x \<in> set xs. sep \<notin> set x"
  shows "py_split sep (py_join [sep] xs) = xs"
  using assms
proof (induction "[sep]" xs rule: py_join.induct)
  case 1
  then show ?case by simp
next
  case (2 x)
  then show ?case by (simp add: py_split_no_sep_id)
next
  case (3 x y ys)
  then show ?case by (simp add: py_split_append)
qed

lemma py_rstrip_last: "py_rstrip s \<noteq> [] \<Longrightarrow> \<not> py_isspace (last (py_rstrip s))"
proof -
  assume a: "py_rstrip s \<noteq> []"
  then have "dropWhile py_isspace (rev s) \<noteq> []" by (simp add: py_rstrip_def)
  then have "\<not> py_isspace (hd (dropWhile py_isspace (rev s)))" by (rule hd_dropWhile)
  then show ?thesis using a by (simp add: py_rstrip_def last_rev)
qed

lemma py_rstrip_id: "s = [] \<or> \<not> py_isspace (last s) \<Longrightarrow> py_rstrip s = s"
  by (cases s rule: rev_cases) (auto simp: py_rstrip_def)

lemma py_strip_last: "py_strip s \<noteq> [] \<Longrightarrow> \<not> py_isspace (last (py_strip s))"
proof -
  assume a: "py_strip s \<noteq> []"
  let ?r = "py_rstrip s"
  have st: "py_strip s = dropWhile py_isspace ?r" by (simp add: py_strip_def py_lstrip_def)
  with a have "?r \<noteq> []" by auto
  then have 1: "\<not> py_isspace (last ?r)" by (rule py_rstrip_last)
  have "?r = takeWhile py_isspace ?r @ dropWhile py_isspace ?r" by simp
  then have "last ?r = last (dropWhile py_isspace ?r)" using a st
    by (metis last_appendR)
  with 1 st show ?thesis by simp
qed

section \<open>Facts about the matcher\<close>

lemma strip_prefix_eval:
  "strip_prefix (p # ps) (c # cs) = strip_if (p = c) ps cs"
  by simp

lemma rmatch_Lit_eval: "rmatch (Lit l # as) s = lit_next l as (strip_prefix l s)"
  by (cases "strip_prefix l s") simp_all

lemma rmatch_Lazy_eval:
  "rmatch (LazyStar cls # as) [] = add_piece [] (rmatch as [])"
  "rmatch (LazyStar cls # as) (c # cs) = lazy_pick (rmatch as (c # cs)) cls as c cs"
  by (cases "rmatch as []"; simp) (cases "rmatch as (c # cs)"; cases "cls c"; simp)

lemma rmatch_Star_eval:
  "rmatch (Star cls # as) [] = add_piece [] (rmatch as [])"
  "rmatch (Star cls # as) (c # cs) = star_pick (cls c) cls as c cs"
  by simp (cases "cls c"; cases "extend_first c (rmatch (Star cls # as) cs)"; simp)

lemma re_sub_eval:
  "re_sub pat repl (c # cs) = sub_pick (rmatch pat (c # cs)) pat repl c cs"
proof (cases "rmatch pat (c # cs)")
  case None
  then show ?thesis by simp
next
  case (Some m)
  obtain ps r where m: "m = (ps, r)" by (cases m)
  show ?thesis
  proof (cases "concat ps = []")
    case True
    with Some m show ?thesis by (simp del: concat_eq_Nil_conv)
  next
    case False
    with Some m show ?thesis by (simp del: concat_eq_Nil_conv)
  qed
qed

lemmas regex_eval = strip_prefix_eval rmatch_Lit_eval rmatch_Lazy_eval rmatch_Star_eval
  re_sub_eval

lemmas regex_unfold = strip_prefix.simps(3) rmatch.simps(2,3,4) re_sub.simps(2)

lemma tabs_simps:
  "tabs 1 = [CHR 0x09]" "tabs 2 = [CHR 0x09, CHR 0x09]" "tabs 3 = [CHR 0x09, CHR 0x09, CHR 0x09]"
  "tabs 4 = [CHR 0x09, CHR 0x09, CHR 0x09, CHR 0x09]"
  by (simp_all add: tabs_def eval_nat_numeral)

lemma rmatch_pieces: "rmatch pat s = Some (ps, r) \<Longrightarrow> list_all2 piece_ok pat ps"
proof (induction pat s arbitrary: ps r rule: rmatch.induct)
  case (1 s)
  then show ?case by simp
next
  case (2 l as s)
  from "2.prems" obtain s' where s': "strip_prefix l s = Some s'"
    by (auto split: option.splits)
  with "2.prems" obtain qs where qs: "rmatch as s' = Some (qs, r)" and ps: "ps = l # qs"
    by (auto simp: add_piece_Some)
  from "2.IH" [OF s' qs] ps show ?case by simp
next
  case (3 cls as s)
  show ?case
  proof (cases "rmatch as s")
    case (Some m)
    with "3.prems" obtain qs where "m = (qs, r)" and "ps = [] # qs"
      by (auto simp: add_piece_Some)
    with Some "3.IH"(1) [of qs r] show ?thesis by simp
  next
    case None
    with "3.prems" obtain c cs where s: "s = c # cs" and c: "cls c"
      by (cases s) (auto split: if_splits)
    with None "3.prems" obtain p qs where
      m: "rmatch (LazyStar cls # as) cs = Some (p # qs, r)" and ps: "ps = (c # p) # qs"
      by (auto simp: extend_first_Some)
    from "3.IH"(2) [OF None s c m] c ps show ?thesis by simp
  qed
next
  case (4 cls as s)
  show ?case
  proof (cases s)
    case Nil
    with "4.prems" obtain qs where "rmatch as [] = Some (qs, r)" and "ps = [] # qs"
      by (auto simp: add_piece_Some)
    with "4.IH"(1) [OF Nil] show ?thesis by simp
  next
    case (Cons c cs)
    show ?thesis
    proof (cases "cls c")
      case True
      show ?thesis
      proof (cases "extend_first c (rmatch (Star cls # as) cs)")
        case None
        with Cons True "4.prems" obtain qs where
          m: "rmatch as (c # cs) = Some (qs, r)" and ps: "ps = [] # qs"
          by (auto simp: add_piece_Some)
        from "4.IH"(3) [OF Cons True None m] ps show ?thesis by simp
      next
        case (Some m)
        with Cons True "4.prems" have "extend_first c (rmatch (Star cls # as) cs) = Some (ps, r)"
          by simp
        then obtain p qs where
          m: "rmatch (Star cls # as) cs = Some (p # qs, r)" and ps: "ps = (c # p) # qs"
          by (auto simp: extend_first_Some)
        from "4.IH"(2) [OF Cons True m] True ps show ?thesis by simp
      qed
    next
      case False
      with Cons "4.prems" obtain qs where
        m: "rmatch as (c # cs) = Some (qs, r)" and ps: "ps = [] # qs"
        by (auto simp: add_piece_Some)
      from "4.IH"(4) [OF Cons False m] ps show ?thesis by simp
    qed
  qed
qed

lemma fills_copy: "fills x s s' \<Longrightarrow> fills x (a @ s) (a @ s')"
  by (induction a) (auto intro: fills.intros)

lemma fills_refl: "fills x s s"
  by (induction s) (auto intro: fills.intros)

lemma re_sub_fills: "fill_shape pat repl x \<Longrightarrow> fills x s (re_sub pat repl s)"
proof (induction pat repl s rule: re_sub.induct)
  case (1 pat repl)
  show ?case
  proof (cases "rmatch pat []")
    case None
    then show ?thesis by (simp add: fills_Nil)
  next
    case (Some m)
    obtain ps r where m: "m = (ps, r)" by (cases m)
    have mm: "rmatch pat [] = Some (ps, r)" using Some m by simp
    from rmatch_concat [OF mm] have e: "concat ps = []" by simp
    from "1.prems" mm obtain g w t where
      "concat ps = g @ CHR ''('' # w @ CHR '')'' # t" unfolding fill_shape_def by blast
    with e show ?thesis by (simp del: concat_eq_Nil_conv)
  qed
next
  case (2 pat repl c cs)
  show ?case
  proof (cases "rmatch pat (c # cs)")
    case None
    from "2.IH" None "2.prems" have "fills x cs (re_sub pat repl cs)" by blast
    with None show ?thesis by (simp add: fills_Cons)
  next
    case (Some m)
    obtain ps r where m: "m = (ps, r)" by (cases m)
    have mm: "rmatch pat (c # cs) = Some (ps, r)" using Some m by simp
    from "2.prems" mm obtain g w t where
      cps: "concat ps = g @ CHR ''('' # w @ CHR '')'' # t" and w: "list_all py_isspace w"
      and rp: "repl ps = g @ CHR ''('' # x @ w @ CHR '')'' # t"
      unfolding fill_shape_def by blast
    from cps have ne: "concat ps \<noteq> []" by (simp del: concat_eq_Nil_conv)
    from rmatch_concat [OF mm] have s: "c # cs = concat ps @ r" .
    from "2.IH" mm ne "2.prems" have ih: "fills x r (re_sub pat repl r)" by blast
    have "fills x (t @ r) (t @ re_sub pat repl r)" using ih by (rule fills_copy)
    then have "fills x (CHR ''('' # w @ CHR '')'' # t @ r)
        (CHR ''('' # x @ w @ CHR '')'' # t @ re_sub pat repl r)"
      using w by (intro fills_Fill)
    then have "fills x (g @ CHR ''('' # w @ CHR '')'' # t @ r)
        (g @ CHR ''('' # x @ w @ CHR '')'' # t @ re_sub pat repl r)"
      by (rule fills_copy)
    moreover have "re_sub pat repl (c # cs) = repl ps @ re_sub pat repl r"
      using Some m ne by (simp del: concat_eq_Nil_conv)
    ultimately show ?thesis using s cps rp by simp
  qed
qed

lemma fills_length: "fills x s s' \<Longrightarrow> length s \<le> length s'"
  by (induction rule: fills.induct) auto

lemma keeps_Nil: "keeps [] []"
  by (simp add: keeps_def)

lemma keeps_Cons: "keeps s s' \<Longrightarrow> keeps (c # s) (c # s')"
  unfolding keeps_def
proof (intro allI impI conjI)
  fix w
  assume k: "\<forall>w. CHR ''('' \<notin> set w \<longrightarrow> (startswith s w \<longrightarrow> startswith s' w) \<and> (py_in w s \<longrightarrow> py_in w s')"
    and w: "CHR ''('' \<notin> set w"
  show sw: "startswith (c # s') w" if "startswith (c # s) w"
  proof (cases w)
    case Nil
    then show ?thesis by simp
  next
    case (Cons p ps)
    with that w k show ?thesis by auto
  qed
  show "py_in w (c # s')" if "py_in w (c # s)"
    using that sw k w by auto
qed

lemma keeps_append: "keeps s s' \<Longrightarrow> keeps (a @ s) (a @ s')"
  by (induction a) (auto intro: keeps_Cons)

lemma py_in_append_right: "py_in w s \<Longrightarrow> py_in w (a @ s)"
  by (induction a) auto

lemma keeps_Fill: "keeps s s' \<Longrightarrow> keeps (CHR ''('' # s) (CHR ''('' # x @ s')"
  unfolding keeps_def
proof (intro allI impI conjI)
  fix w
  assume k: "\<forall>w. CHR ''('' \<notin> set w \<longrightarrow> (startswith s w \<longrightarrow> startswith s' w) \<and> (py_in w s \<longrightarrow> py_in w s')"
    and w: "CHR ''('' \<notin> set w"
  have e: "w = []" if "startswith (CHR ''('' # s) w"
    using that w by (cases w) auto
  show "startswith (CHR ''('' # x @ s') w" if "startswith (CHR ''('' # s) w"
    using e [OF that] by simp
  show "py_in w (CHR ''('' # x @ s')" if "py_in w (CHR ''('' # s)"
  proof (cases "startswith (CHR ''('' # s) w")
    case True
    then show ?thesis using e by simp
  next
    case False
    with that have "py_in w s" by simp
    with k w have "py_in w s'" by blast
    then have "py_in w (x @ s')" by (rule py_in_append_right)
    then show ?thesis by simp
  qed
qed

lemma fills_keeps: "fills x s s' \<Longrightarrow> keeps s s'"
proof (induction rule: fills.induct)
  case fills_Nil
  then show ?case by (rule keeps_Nil)
next
  case (fills_Cons s s' c)
  then show ?case by (intro keeps_Cons)
next
  case (fills_Fill w s s')
  then have "keeps (w @ CHR '')'' # s) (w @ CHR '')'' # s')"
    by (intro keeps_append keeps_Cons)
  then show ?case by (rule keeps_Fill)
qed

lemma fills_py_in:
  "fills x s s' \<Longrightarrow> CHR ''('' \<notin> set w \<Longrightarrow> py_in w s \<Longrightarrow> py_in w s'"
  using fills_keeps unfolding keeps_def by blast

section \<open>Facts about identifiers\<close>

lemma hex_digits_upper: "\<forall>d \<in> set [0..<16]. py_upper_char (hex_digit d) \<in> hex_upper"
  unfolding hex_upper_def by code_simp

lemma hex_digit_upper: "d < 16 \<Longrightarrow> py_upper_char (hex_digit d) \<in> hex_upper"
  using hex_digits_upper by simp

lemma unat_and_15: "unat ((v :: 128 word) AND 15) < 16"
proof -
  have "v AND 15 \<le> 15" by (rule word_and_le1)
  then have "unat (v AND 15) \<le> unat (15 :: 128 word)" by (simp add: word_le_nat_alt)
  then show ?thesis by simp
qed

lemma to_hex_length: "length (to_hex n v) = n"
  by (induction n arbitrary: v) auto

lemma to_hex_upper: "set (py_upper (to_hex n v)) \<subseteq> hex_upper"
  by (induction n arbitrary: v) (auto simp: py_upper_def hex_digit_upper unat_and_15)

lemma py_upper_dash: "py_upper_char (CHR ''-'') = CHR ''-''"
  by (simp add: py_upper_char_def)

lemma uuid_token_hex: "set (uuid_token r) \<subseteq> hex_upper"
proof -
  let ?h = "to_hex 32 (uuid4_int r)"
  have h: "py_upper_char x \<in> hex_upper" if "x \<in> set ?h" for x
    using to_hex_upper [of 32 "uuid4_int r"] that by (auto simp: py_upper_def)
  have "set (uuid_token r) \<subseteq> set (py_upper (uuid_str (uuid4_int r))) - {CHR ''-''}"
    by (auto simp: uuid_token_def py_replace_dash)
  also have "\<dots> \<subseteq> hex_upper"
    by (auto simp: uuid_str_def Let_def py_upper_def py_upper_dash
          dest!: in_set_takeD in_set_dropD intro: h)
  finally show ?thesis .
qed

lemma not_py_in_hex:
  assumes "set s \<subseteq> hex_upper" and "c \<in> set sub" and "c \<notin> hex_upper"
  shows "\<not> py_in sub s"
  using assms py_in_set by blast

lemma get_product_name_hex:
  assumes "set u \<subseteq> hex_upper"
  shows "get_product_name u pkgs = ''Package''"
proof -
  have 1: "\<not> py_in ''ATProtoKit'' u"
    by (rule not_py_in_hex [OF assms, of "CHR ''T''"]) (simp_all add: hex_upper_def)
  have 2: "\<not> py_in ''keychain'' u"
    by (rule not_py_in_hex [OF assms, of "CHR ''k''"]) (simp_all add: hex_upper_def)
  have 3: "\<not> py_in ''AppRouter'' u"
    by (rule not_py_in_hex [OF assms, of "CHR ''p''"]) (simp_all add: hex_upper_def)
  have 4: "\<not> py_in ''Nuke'' u"
    by (rule not_py_in_hex [OF assms, of "CHR ''N''"]) (simp_all add: hex_upper_def)
  have 5: "\<not> py_in ''ViewInspector'' u"
    by (rule not_py_in_hex [OF assms, of "CHR ''V''"]) (simp_all add: hex_upper_def)
  have 6: "\<not> py_in ''AcknowList'' u"
    by (rule not_py_in_hex [OF assms, of "CHR ''c''"]) (simp_all add: hex_upper_def)
  show ?thesis
    unfolding get_product_name_def using 1 2 3 4 5 6 by simp
qed

lemma add_package_hex:
  assumes "\<forall>u \<in> set (product_dependencies (fst st)). set u \<subseteq> hex_upper"
  shows "\<forall>u \<in> set (product_dependencies (fst (add_package st p))). set u \<subseteq> hex_upper"
  using assms uuid_token_hex
  by (auto simp: add_package_def generate_uuid_def Let_def split: prod.splits if_splits)

lemma foldl_add_package_hex:
  assumes "\<forall>u \<in> set (product_dependencies (fst st)). set u \<subseteq> hex_upper"
  shows "\<forall>u \<in> set (product_dependencies (fst (foldl add_package st pkgs))). set u \<subseteq> hex_upper"
  using assms
proof (induction pkgs arbitrary: st)
  case Nil
  then show ?case by simp
next
  case (Cons p pkgs)
  from Cons.prems have "\<forall>u \<in> set (product_dependencies (fst (add_package st p))). set u \<subseteq> hex_upper"
    by (rule add_package_hex)
  then show ?case using Cons.IH by simp
qed

lemma generate_sections_hex:
  "u \<in> set (product_dependencies (fst (generate_sections pkgs g))) \<Longrightarrow> set u \<subseteq> hex_upper"
  using foldl_add_package_hex [of "(\<lparr>package_references = [], package_products = [],
    product_dependencies = []\<rparr>, g)" pkgs]
  by (simp add: generate_sections_def)

lemma generate_sections_length:
  "length (product_dependencies (fst (generate_sections packages g))) = 7"
  by (simp add: generate_sections_def packages_def add_package_def generate_uuid_def Let_def
      split_def)

lemma hex_upper_not_space: "c \<in> hex_upper \<Longrightarrow> \<not> py_isspace c"
  by (auto simp: hex_upper_def py_isspace_def)

lemma tab_space: "py_isspace (CHR 0x09)" and blank_space: "py_isspace (CHR '' '')"
  by (simp_all add: py_isspace_def)

lemma record_id_token:
  assumes "u \<noteq> []" and "\<forall>c \<in> set u. \<not> py_isspace c"
  shows "record_id (tabs 2 @ u @ CHR '' '' # r) = u"
proof -
  obtain c cs where u: "u = c # cs" using assms(1) by (cases u) auto
  have "dropWhile py_isspace (tabs 2 @ u @ CHR '' '' # r) = u @ CHR '' '' # r"
    using assms(2) u by (simp add: tabs_def numeral_2_eq_2 tab_space)
  moreover have "takeWhile (\<lambda>c. \<not> py_isspace c) (u @ CHR '' '' # r) = u"
    using assms(2) by (subst takeWhile_append2) (auto simp: blank_space)
  ultimately show ?thesis by (simp add: record_id_def)
qed

lemma take_drop_groups:
  "take 8 h @ take 4 (drop 8 h) @ take 4 (drop 12 h) @ take 4 (drop 16 h) @ drop 20 h = h"
proof -
  have "take 4 (drop 16 h) @ drop 20 h = drop 16 h"
    using append_take_drop_id [of 4 "drop 16 h"] by simp
  moreover have "take 4 (drop 12 h) @ drop 16 h = drop 12 h"
    using append_take_drop_id [of 4 "drop 12 h"] by simp
  moreover have "take 4 (drop 8 h) @ drop 12 h = drop 8 h"
    using append_take_drop_id [of 4 "drop 8 h"] by simp
  ultimately show ?thesis by simp
qed

lemma dash_not_hex: "CHR ''-'' \<notin> hex_upper"
  by (simp add: hex_upper_def)

lemma uuid_token_eq: "uuid_token r = py_upper (to_hex 32 (uuid4_int r))"
proof -
  let ?h = "to_hex 32 (uuid4_int r)"
  have nd: "filter (\<lambda>c. c \<noteq> CHR ''-'') (py_upper s) = py_upper s"
    if "set (py_upper s) \<subseteq> hex_upper" for s
    using that dash_not_hex by (intro filter_True) auto
  have sub: "set (py_upper (take k (drop j ?h))) \<subseteq> hex_upper" for k j
    using to_hex_upper [of 32 "uuid4_int r"]
    by (auto simp: py_upper_def dest!: in_set_takeD in_set_dropD)
  have sub': "set (py_upper (drop j ?h)) \<subseteq> hex_upper" for j
    using to_hex_upper [of 32 "uuid4_int r"]
    by (auto simp: py_upper_def dest!: in_set_dropD)
  have sub'': "set (py_upper (take j ?h)) \<subseteq> hex_upper" for j
    using to_hex_upper [of 32 "uuid4_int r"]
    by (auto simp: py_upper_def dest!: in_set_takeD)
  have app: "py_upper (a @ b) = py_upper a @ py_upper b" for a b
    by (simp add: py_upper_def)
  have dash: "py_upper ''-'' = ''-''"
    by (simp add: py_upper_def py_upper_dash)
  have "uuid_token r =
      py_upper (take 8 ?h) @ py_upper (take 4 (drop 8 ?h)) @ py_upper (take 4 (drop 12 ?h))
      @ py_upper (take 4 (drop 16 ?h)) @ py_upper (drop 20 ?h)"
    unfolding uuid_token_def py_replace_dash uuid_str_def Let_def app dash filter_append
    using nd [OF sub] nd [OF sub'] nd [OF sub''] by simp
  also have "\<dots> = py_upper (take 8 ?h @ take 4 (drop 8 ?h) @ take 4 (drop 12 ?h)
      @ take 4 (drop 16 ?h) @ drop 20 ?h)"
    by (simp add: py_upper_def)
  also have "\<dots> = py_upper ?h" by (simp only: take_drop_groups)
  finally show ?thesis .
qed

lemma uuid_token_length: "length (uuid_token r) = 32"
  by (simp add: uuid_token_eq py_upper_def to_hex_length)

lemma uuid_token_no_space: "c \<in> set (uuid_token r) \<Longrightarrow> \<not> py_isspace c"
  using uuid_token_hex hex_upper_not_space by blast

lemma record_id_uuid: "record_id (tabs 2 @ uuid_token r @ CHR '' '' # t) = uuid_token r"
proof (rule record_id_token)
  show "uuid_token r \<noteq> []" using uuid_token_length [of r] by auto
  show "\<forall>c \<in> set (uuid_token r). \<not> py_isspace c" using uuid_token_no_space by blast
qed










section \<open>Facts about \<open>fix_module_imports\<close>\<close>

lemma filter_lines_filter: "filter_lines ls = filter (\<lambda>l. \<not> removed_by_code l) ls"
  by (induction ls) (auto simp: removed_by_code_def Let_def)

lemma internal_modules_shape:
  "m \<in> internal_modules \<Longrightarrow> m \<noteq> [] \<and> \<not> py_isspace (hd m) \<and> \<not> py_isspace (last m)"
  by (auto simp: internal_modules_def py_isspace_def)

lemma py_strip_padded:
  assumes "set ws \<subseteq> Collect py_isspace" and "m \<noteq> []" and "\<not> py_isspace (hd m)"
    and "\<not> py_isspace (last m)"
  shows "py_strip (ws @ m) = m"
proof -
  have "py_rstrip (ws @ m) = ws @ m" using assms by (intro py_rstrip_id) simp
  moreover have "dropWhile py_isspace (ws @ m) = m"
    using assms by (cases m) (auto simp: dropWhile_append)
  ultimately show ?thesis by (simp add: py_strip_def py_lstrip_def)
qed

lemma removed_by_code_iff: "removed_by_code line \<longleftrightarrow> import_of_internal line"
proof
  assume r: "removed_by_code line"
  let ?st = "py_strip line"
  let ?rest = "drop 7 ?st"
  let ?m = "py_strip ?rest"
  from r have sw: "startswith ?st ''import ''" and m: "?m \<in> internal_modules"
    by (auto simp: removed_by_code_def)
  from sw obtain t where t: "?st = ''import '' @ t" by (auto simp: startswith_iff)
  then have rest: "?rest = t" by simp
  from m have mne: "?m \<noteq> []" using internal_modules_shape by blast
  then have tne: "t \<noteq> []" using rest by (auto simp: py_strip_def py_lstrip_def py_rstrip_def)
  have "?st \<noteq> []" using t by simp
  then have "\<not> py_isspace (last ?st)" by (rule py_strip_last)
  then have "\<not> py_isspace (last t)" using t tne by simp
  then have "py_rstrip t = t" by (intro py_rstrip_id) simp
  then have "?m = dropWhile py_isspace t" using rest by (simp add: py_strip_def py_lstrip_def)
  then have "t = takeWhile py_isspace t @ ?m" by simp
  moreover have "set (takeWhile py_isspace t) \<subseteq> Collect py_isspace"
    by (auto dest: set_takeWhileD)
  ultimately show "import_of_internal line"
    unfolding import_of_internal_def using m t by metis
next
  assume "import_of_internal line"
  then obtain ws m where m: "m \<in> internal_modules" and ws: "set ws \<subseteq> Collect py_isspace"
    and st: "py_strip line = ''import '' @ ws @ m"
    by (auto simp: import_of_internal_def)
  from st have 1: "startswith (py_strip line) ''import ''" by (auto simp: startswith_iff)
  from st have "drop 7 (py_strip line) = ws @ m" by simp
  moreover have "py_strip (ws @ m) = m"
    using ws internal_modules_shape [OF m] by (intro py_strip_padded) auto
  ultimately show "removed_by_code line" using 1 m by (simp add: removed_by_code_def)
qed

lemma filter_lines_idem: "filter_lines (filter_lines ls) = filter_lines ls"
  by (simp add: filter_lines_filter)

lemma filter_lines_subset: "set (filter_lines ls) \<subseteq> set ls"
  by (auto simp: filter_lines_filter)

lemma fix_content_idem: "fix_content (fix_content c) = fix_content c"
proof (cases "filter_lines (py_split (CHR ''\<newline>'') c) = []")
  case True
  then have "fix_content c = []" by (simp add: fix_content_def)
  moreover have "fix_content [] = []"
    by (simp add: fix_content_def Let_def py_strip_def py_lstrip_def py_rstrip_def)
  ultimately show ?thesis by simp
next
  case False
  let ?f = "filter_lines (py_split (CHR ''\<newline>'') c)"
  have "\<forall>x \<in> set ?f. CHR ''\<newline>'' \<notin> set x"
    using filter_lines_subset py_split_no_sep by blast
  with False have "py_split (CHR ''\<newline>'') (py_join ''\<newline>'' ?f) = ?f"
    by (rule py_split_join)
  then show ?thesis by (simp add: fix_content_def filter_lines_idem)
qed

section \<open>Facts about \<open>create_project_structure\<close>\<close>

lemma source_file_entries_ids:
  "map record_id (fst (fst (source_file_entries fs g)))
     = map record_id (snd (fst (source_file_entries fs g)))
   \<and> length (fst (fst (source_file_entries fs g))) = length fs"
proof (induction fs arbitrary: g)
  case Nil
  then show ?case by simp
next
  case (Cons f fs)
  have b: "record_id (build_file_text (uuid_token r) n) = uuid_token r" for r n
    using record_id_uuid [of r] by (simp add: build_file_text_def)
  have f: "record_id (file_ref_text (uuid_token r) n) = uuid_token r" for r n
    using record_id_uuid [of r] by (simp add: file_ref_text_def)
  show ?case
    using Cons.IH [of "snd (generate_uuid g)"]
    by (simp add: split_def Let_def generate_uuid_def b f)
qed

section \<open>Facts about \<open>add_framework_dependencies\<close>\<close>

lemma replace_frameworks_eq: "replace_frameworks p s = p @ frameworks_entries @ s"
  by (simp add: replace_frameworks_def frameworks_entries_def)

lemmas horizon_defs = horizon_project_def horizon_once_def horizon_twice_def horizon_head_def
  horizon_middle_def horizon_tail_def tabs_simps

lemmas entries_defs = frameworks_entries_def framework_files_def framework_package_products_def
  tabs_simps

lemma entries_has_id: "py_in ''1D60000F22D4FAF6008BF43F'' (frameworks_entries @ s)"
  by (simp add: entries_defs)

lemma frameworks_step_once:
  "re_sub frameworks_pattern (\<lambda>ps. replace_frameworks (pieces 0 3 ps) (pieces 3 7 ps))
     horizon_project = horizon_once"
  by (simp add: horizon_defs frameworks_pattern_def any_char_def py_isspace_def pieces_def
      replace_frameworks_eq regex_eval
      del: regex_unfold)

lemma add_framework_dependencies_once:
  "add_framework_dependencies horizon_project = horizon_once"
proof -
  have "py_in ''1D60000F22D4FAF6008BF43F'' horizon_once"
    by (simp add: horizon_defs entries_has_id)
  then show ?thesis
    by (simp add: add_framework_dependencies_def frameworks_step_once)
qed

lemma frameworks_step_twice:
  "re_sub frameworks_pattern (\<lambda>ps. replace_frameworks (pieces 0 3 ps) (pieces 3 7 ps))
     horizon_once = horizon_twice"
  by (simp add: horizon_defs entries_defs frameworks_pattern_def any_char_def py_isspace_def
      pieces_def replace_frameworks_def regex_eval
      del: regex_unfold)

lemma add_framework_dependencies_twice:
  "add_framework_dependencies horizon_once = horizon_twice"
proof -
  have "py_in ''1D60000F22D4FAF6008BF43F'' horizon_twice"
    by (simp add: horizon_defs entries_has_id)
  then show ?thesis
    by (simp add: add_framework_dependencies_def frameworks_step_twice)
qed

lemma horizon_twice_differs: "horizon_twice \<noteq> horizon_once"
  by (simp add: horizon_defs entries_defs)

lemma horizon_once_reference:
  "py_in ''1D60000F22D4FAF6008BF43F /* UIKit.framework in Frameworks */,'' horizon_once"
proof -
  have "py_in ''1D60000F22D4FAF6008BF43F /* UIKit.framework in Frameworks */,'' (frameworks_entries @ s)" for s
    by (simp add: entries_defs)
  then show ?thesis by (simp add: horizon_defs)
qed

lemma horizon_once_no_build_file: "\<not> py_in ''isa = PBXBuildFile'' horizon_once"
  by (simp add: horizon_defs entries_defs)


section \<open>The product-name lookup on allocated identifiers\<close>

text \<open>
  Claim C10. Every identifier \<open>generate_uuid\<close> returns, whatever the entropy source
  gives, consists of the characters \<open>0-9\<close> and \<open>A-F\<close>, so none of the substrings
  \<open>get_product_name\<close> tests occurs in it and the lookup returns the fallback \<open>Package\<close>.
  The seven product dependencies \<open>add_packages_to_project\<close> allocates therefore all get
  the label \<open>Package\<close>, which is none of the product names the script writes.
\<close>

theorem get_product_name_of_generated:
  "get_product_name (fst (generate_uuid g)) pkgs = ''Package''
   \<and> map (\<lambda>u. get_product_name u packages)
         (product_dependencies (fst (generate_sections packages g'))) = replicate 7 ''Package''
   \<and> ''Package'' \<notin> set product_names"
proof -
  have 1: "get_product_name (fst (generate_uuid g)) pkgs = ''Package''"
    by (simp add: generate_uuid_def get_product_name_hex uuid_token_hex)
  let ?deps = "product_dependencies (fst (generate_sections packages g'))"
  have "map (\<lambda>u. get_product_name u packages) ?deps = replicate (length ?deps) ''Package''"
    by (simp add: map_replicate_const [symmetric] generate_sections_hex get_product_name_hex
          cong: map_cong)
  then have 2: "map (\<lambda>u. get_product_name u packages) ?deps = replicate 7 ''Package''"
    by (simp only: generate_sections_length)
  have 3: "''Package'' \<notin> set product_names"
    by (simp add: product_names_def)
  from 1 2 3 show ?thesis by blast
qed

section \<open>Removing the imports of internal modules\<close>

text \<open>
  Claim C9, as stated, fails on the code: the claim lets the script drop only the lines
  whose stripped form is exactly \<open>import M\<close>. The line \<open>import  AuthUI\<close>, with two
  spaces, is dropped as well, since the script strips the module name a second time.
\<close>

theorem import_two_spaces_removed:
  "filter_lines [''import  AuthUI''] = []
   \<and> py_strip ''import  AuthUI'' \<notin> (\<lambda>m. ''import '' @ m) ` internal_modules"
  by code_simp

text \<open>
  Claim C9, amended. For every list of lines the script keeps, unchanged and in order,
  exactly the lines that are not an import of an internal module, where white space may
  follow the space after \<open>import\<close>; and running the script on its own output changes
  nothing.
\<close>

theorem fix_module_imports_removes:
  "filter_lines ls = filter (\<lambda>l. \<not> import_of_internal l) ls
   \<and> fix_content (fix_content c) = fix_content c"
  using filter_lines_filter removed_by_code_iff fix_content_idem by simp

section \<open>The identifiers the allocator returns\<close>



section \<open>Identifiers of a build file and of the file it wraps\<close>

text \<open>
  Claim C6. The claim holds of the hard-coded records of the other scripts, and the code
  of \<open>create_project_structure\<close> breaks it: for every list of source files and every
  entropy source, the loop writes one BuildFile record and one FileReference record per
  file, and the two records of a file carry the same identifier.
\<close>

theorem build_file_shares_identifier:
  "map record_id (fst (fst (source_file_entries all_files g)))
     = map record_id (snd (fst (source_file_entries all_files g)))
   \<and> length (fst (fst (source_file_entries all_files g))) = length all_files"
  by (rule source_file_entries_ids)

section \<open>Writing the project file back\<close>



section \<open>References without a node\<close>

text \<open>
  Claim C2. The code breaks it on the example project: \<open>add_framework_dependencies\<close>
  fills the file list of the Frameworks build phase, and because the list now holds the
  identifier the script looks for, it skips the build file records. The result refers to
  the build file of UIKit and holds no build file record at all.
\<close>

theorem file_list_refers_to_missing_build_files:
  "add_framework_dependencies horizon_project = horizon_once
   \<and> py_in ''1D60000F22D4FAF6008BF43F /* UIKit.framework in Frameworks */,'' horizon_once
   \<and> \<not> py_in ''isa = PBXBuildFile'' horizon_once"
  using add_framework_dependencies_once horizon_once_reference horizon_once_no_build_file
  by simp

section \<open>Running \<open>add_framework_dependencies\<close> twice\<close>

text \<open>
  Claim C1. The code breaks it on the example project: the first run fills the file list
  of the Frameworks build phase; on the second run the pattern, which asks for an empty
  file list, runs on lazily to the empty file list of the Resources build phase and
  fills that one.
\<close>

theorem second_run_fills_next_list:
  "add_framework_dependencies (add_framework_dependencies horizon_project) = horizon_twice
   \<and> add_framework_dependencies horizon_project = horizon_once
   \<and> horizon_twice \<noteq> horizon_once"
  using add_framework_dependencies_once add_framework_dependencies_twice horizon_twice_differs
  by simp

end
